theory Spec2Isabelle
  imports Complex_Main
begin

section \<open>Values of the host framework\<close>

text \<open>
  The layer of \<^verbatim>\<open>transformer_engine/paddle/layer/rmsnorm.py\<close> is glue over a tensor
  library. A tensor is its shape, its elements in row-major order, its element type and
  the two per-object markers the layer reads or writes. Elements are real numbers: the
  rounding of the machine formats, infinities and NaN are not represented, so
  \<open>x / 0\<close> and the square root of a negative number are the values HOL gives them.
\<close>

datatype error =
    AssertionError string
  | NotImplementedError string
  | AttributeError string
  | ValueError
  | KeyError
  | IndexError
  | InvalidArgumentError
  | KernelError

datatype paddle_dtype = uint8 | int32 | float16 | bfloat16 | float32 | float64

datatype te_dtype = kByte | kInt32 | kFloat32 | kFloat16 | kBFloat16

record tensor =
  shape :: "nat list"
  data :: "real list"
  dtype :: paddle_dtype
  stop_gradient :: bool
  marked_sequence_parallel :: bool

definition numel :: "nat list \<Rightarrow> nat" where
  "numel s = prod_list s"

subsection \<open>Effects: what a call did before it returned or raised\<close>

text \<open>
  Every call yields the events it caused, in order, and then either the exception that
  ended it (\<open>Inl\<close>) or its value (\<open>Inr\<close>).
\<close>

datatype event =
    GetEnv string
  | CreateParameter "nat list"
  | MarkSequenceParallel
  | TensorOp string
  | RmsnormFwd "nat list" int bool
  | RmsnormBwd "nat list" int bool

type_synonym 'a io = "event list \<times> (error + 'a)"

definition io_return :: "'a \<Rightarrow> 'a io" where
  "io_return x = ([], Inr x)"

definition io_raise :: "error \<Rightarrow> 'a io" where
  "io_raise e = ([], Inl e)"

definition io_lift :: "error + 'a \<Rightarrow> 'a io" where
  "io_lift r = ([], r)"

definition io_emit :: "event \<Rightarrow> (error + 'a) \<Rightarrow> 'a io" where
  "io_emit ev r = ([ev], r)"

definition io_bind :: "'a io \<Rightarrow> ('a \<Rightarrow> 'b io) \<Rightarrow> 'b io" where
  "io_bind m f =
     (case m of
        (tr, Inl e) \<Rightarrow> (tr, Inl e)
      | (tr, Inr x) \<Rightarrow> (case f x of (tr', r) \<Rightarrow> (tr @ tr', r)))"

subsection \<open>Shapes: indexing, reshape and broadcasting\<close>

text \<open>\<^verbatim>\<open>t.shape[0]\<close> and \<^verbatim>\<open>t.shape[-1]\<close>: a tensor without dimensions has neither.\<close>

definition shape_first :: "tensor \<Rightarrow> error + nat" where
  "shape_first t = (case shape t of [] \<Rightarrow> Inl IndexError | d # _ \<Rightarrow> Inr d)"

definition shape_last :: "tensor \<Rightarrow> error + nat" where
  "shape_last t = (case rev (shape t) of [] \<Rightarrow> Inl IndexError | d # _ \<Rightarrow> Inr d)"

text \<open>
  \<^verbatim>\<open>Tensor.reshape\<close>: in the target a \<open>0\<close> at position \<open>i\<close> copies dimension \<open>i\<close> of the
  input, one \<open>-1\<close> is inferred from the element count, and the element counts must
  agree.
\<close>

fun copy_dims :: "nat list \<Rightarrow> nat \<Rightarrow> int list \<Rightarrow> int list option" where
  "copy_dims s i [] = Some []"
| "copy_dims s i (d # ds) =
     (if d = 0 then
        (if i < length s then map_option ((#) (int (s ! i))) (copy_dims s (Suc i) ds)
         else None)
      else if d < - 1 then None
      else map_option ((#) d) (copy_dims s (Suc i) ds))"

definition reshape_shape :: "nat list \<Rightarrow> int list \<Rightarrow> nat list option" where
  "reshape_shape s target =
     (case copy_dims s 0 target of
        None \<Rightarrow> None
      | Some ds \<Rightarrow>
          (let known = filter (\<lambda>d. d \<noteq> - 1) ds;
               capacity = prod_list (map nat known);
               unknown = length ds - length known
           in if unknown = 0 then
                (if capacity = numel s then Some (map nat ds) else None)
              else if unknown = 1 then
                (if capacity = 0 then None
                 else if numel s mod capacity = 0 then
                   Some (map (\<lambda>d. if d = - 1 then numel s div capacity else nat d) ds)
                 else None)
              else None))"

definition Tensor_reshape :: "tensor \<Rightarrow> int list \<Rightarrow> tensor io" where
  "Tensor_reshape t target =
     io_emit (TensorOp ''reshape'')
       (case reshape_shape (shape t) target of
          None \<Rightarrow> Inl InvalidArgumentError
        | Some s \<Rightarrow> Inr (t\<lparr>shape := s, marked_sequence_parallel := False\<rparr>))"

text \<open>
  Broadcasting aligns two shapes at their last dimension; a dimension of extent 1
  stretches to the other operand's extent. Both functions work on reversed shapes.
\<close>

fun broadcast_rev :: "nat list \<Rightarrow> nat list \<Rightarrow> nat list option" where
  "broadcast_rev [] ys = Some ys"
| "broadcast_rev (x # xs) [] = Some (x # xs)"
| "broadcast_rev (x # xs) (y # ys) =
     (if x = y \<or> y = 1 then map_option ((#) x) (broadcast_rev xs ys)
      else if x = 1 then map_option ((#) y) (broadcast_rev xs ys)
      else None)"

definition broadcast_shape :: "nat list \<Rightarrow> nat list \<Rightarrow> nat list option" where
  "broadcast_shape a b = map_option rev (broadcast_rev (rev a) (rev b))"

text \<open>
  The position in an operand of shape \<open>a\<close> that the element at row-major position \<open>k\<close> of
  the broadcast result of shape \<open>s\<close> reads.
\<close>

fun offset_rev :: "nat list \<Rightarrow> nat list \<Rightarrow> nat \<Rightarrow> nat" where
  "offset_rev (a # as) (d # ds) k =
     (if a = 1 then 0 else k mod d) + a * offset_rev as ds (k div d)"
| "offset_rev _ _ k = 0"

definition offset :: "nat list \<Rightarrow> nat list \<Rightarrow> nat \<Rightarrow> nat" where
  "offset a s k = offset_rev (rev a) (rev s) k"

subsection \<open>The tensor arithmetic the direct path uses\<close>

definition derived :: "tensor \<Rightarrow> nat list \<Rightarrow> real list \<Rightarrow> tensor" where
  "derived t s xs =
     \<lparr>shape = s, data = xs, dtype = dtype t, stop_gradient = stop_gradient t,
      marked_sequence_parallel = False\<rparr>"

definition paddle_pow :: "tensor \<Rightarrow> nat \<Rightarrow> tensor io" where
  "paddle_pow t p =
     io_emit (TensorOp ''pow'') (Inr (derived t (shape t) (map (\<lambda>x. x ^ p) (data t))))"

text \<open>\<^verbatim>\<open>paddle.mean(t, axis=-1, keepdim=True)\<close>: the last dimension shrinks to extent 1.\<close>

definition row :: "nat \<Rightarrow> real list \<Rightarrow> nat \<Rightarrow> real list" where
  "row n xs r = take n (drop (r * n) xs)"

definition paddle_mean :: "tensor \<Rightarrow> tensor io" where
  "paddle_mean t =
     io_emit (TensorOp ''mean'')
       (case rev (shape t) of
          [] \<Rightarrow> Inr (derived t [] (data t))
        | n # ds \<Rightarrow>
            Inr (derived t (rev (1 # ds))
                   (map (\<lambda>r. sum_list (row n (data t) r) / real n) [0..<prod_list ds])))"

definition paddle_add_scalar :: "tensor \<Rightarrow> real \<Rightarrow> tensor io" where
  "paddle_add_scalar t c =
     io_emit (TensorOp ''add'') (Inr (derived t (shape t) (map (\<lambda>x. x + c) (data t))))"

definition rsqrt :: "real \<Rightarrow> real" where
  "rsqrt x = 1 / sqrt x"

definition paddle_rsqrt :: "tensor \<Rightarrow> tensor io" where
  "paddle_rsqrt t =
     io_emit (TensorOp ''rsqrt'') (Inr (derived t (shape t) (map rsqrt (data t))))"

definition paddle_multiply :: "tensor \<Rightarrow> tensor \<Rightarrow> tensor io" where
  "paddle_multiply a b =
     io_emit (TensorOp ''multiply'')
       (case broadcast_shape (shape a) (shape b) of
          None \<Rightarrow> Inl InvalidArgumentError
        | Some s \<Rightarrow>
            Inr \<lparr>shape = s,
                 data = map (\<lambda>k. data a ! offset (shape a) s k * data b ! offset (shape b) s k)
                          [0..<numel s],
                 dtype = dtype a,
                 stop_gradient = (stop_gradient a \<and> stop_gradient b),
                 marked_sequence_parallel = False\<rparr>)"

subsection \<open>The accelerated kernel pair\<close>

text \<open>
  \<^verbatim>\<open>rmsnorm_fwd\<close> and \<^verbatim>\<open>rmsnorm_bwd\<close> are imported from the compiled extension and
  \<^verbatim>\<open>TE_DType\<close> from the constants module; the layer only calls them. They are
  parameters of every function below that reaches them. A kernel takes the arguments in
  the order of the call and returns its pair of tensors or fails.
\<close>

type_synonym fwd_kernel =
  "tensor \<Rightarrow> tensor \<Rightarrow> real \<Rightarrow> te_dtype \<Rightarrow> int \<Rightarrow> bool \<Rightarrow> error + tensor \<times> tensor"

type_synonym bwd_kernel =
  "tensor \<Rightarrow> tensor \<Rightarrow> tensor \<Rightarrow> tensor \<Rightarrow> int \<Rightarrow> bool \<Rightarrow> error + tensor \<times> tensor"

definition call_rmsnorm_fwd ::
  "fwd_kernel \<Rightarrow> tensor \<Rightarrow> tensor \<Rightarrow> real \<Rightarrow> te_dtype \<Rightarrow> int \<Rightarrow> bool \<Rightarrow> (tensor \<times> tensor) io" where
  "call_rmsnorm_fwd rmsnorm_fwd inputmat w e te sm_margin zcg =
     io_emit (RmsnormFwd (shape inputmat) sm_margin zcg)
       (rmsnorm_fwd inputmat w e te sm_margin zcg)"

definition call_rmsnorm_bwd ::
  "bwd_kernel \<Rightarrow> tensor \<Rightarrow> tensor \<Rightarrow> tensor \<Rightarrow> tensor \<Rightarrow> int \<Rightarrow> bool \<Rightarrow> (tensor \<times> tensor) io" where
  "call_rmsnorm_bwd rmsnorm_bwd dz x rsigma w sm_margin zcg =
     io_emit (RmsnormBwd (shape dz) sm_margin zcg)
       (rmsnorm_bwd dz x rsigma w sm_margin zcg)"

definition dict_lookup :: "('k \<rightharpoonup> 'v) \<Rightarrow> 'k \<Rightarrow> error + 'v" where
  "dict_lookup m k = (case m k of None \<Rightarrow> Inl KeyError | Some v \<Rightarrow> Inr v)"

section \<open>The autograd function \<^verbatim>\<open>_RMSNorm\<close>\<close>

text \<open>
  The context object that \<^verbatim>\<open>forward\<close> fills and \<^verbatim>\<open>backward\<close> reads. The saved tensors
  are the objects themselves: a later change of a marker of the input matrix or of the
  weight shows in \<open>saved_tensor\<close>.
\<close>

record ctx =
  saved_tensor :: "tensor list"
  inp_shape :: "nat list"
  ctx_bwd_rmsnorm_sm_margin :: int
  ctx_zero_centered_gamma :: bool
  requires_dx :: bool
  requires_dw :: bool

definition PyLayer_forward ::
  "fwd_kernel \<Rightarrow> (paddle_dtype \<rightharpoonup> te_dtype) \<Rightarrow> tensor \<Rightarrow> tensor \<Rightarrow> real \<Rightarrow> int \<Rightarrow> int \<Rightarrow> bool
     \<Rightarrow> (tensor \<times> ctx) io" where
  "PyLayer_forward rmsnorm_fwd TE_DType inp rmsnorm_weight e fwd_margin bwd_margin zcg =
     io_bind (io_lift (shape_first rmsnorm_weight)) (\<lambda>in_features.
     io_bind (io_lift (shape_last inp)) (\<lambda>last_dim.
       if last_dim = in_features then
         io_bind (Tensor_reshape inp [- 1, int in_features]) (\<lambda>inputmat.
         io_bind (io_lift (dict_lookup TE_DType (dtype inp))) (\<lambda>te.
         io_bind (call_rmsnorm_fwd rmsnorm_fwd inputmat rmsnorm_weight e te fwd_margin zcg)
           (\<lambda>(rmsnorm_out, rsigma).
         io_bind (Tensor_reshape rmsnorm_out (map int (shape inp))) (\<lambda>out.
           io_return
             (out,
              \<lparr>saved_tensor = [inputmat, rmsnorm_weight, rsigma],
               inp_shape = shape inp,
               ctx_bwd_rmsnorm_sm_margin = bwd_margin,
               ctx_zero_centered_gamma = zcg,
               requires_dx = (\<not> stop_gradient inp),
               requires_dw = (\<not> stop_gradient rmsnorm_weight)\<rparr>)))))
       else io_raise (AssertionError ''RMSNorm not possible'')))"

definition PyLayer_backward ::
  "bwd_kernel \<Rightarrow> ctx \<Rightarrow> tensor \<Rightarrow> (tensor option \<times> tensor option) io" where
  "PyLayer_backward rmsnorm_bwd c grad_output =
     (case saved_tensor c of
        [inputmat, rmsnorm_weight, rsigma] \<Rightarrow>
          io_bind (Tensor_reshape grad_output (map int (shape inputmat))) (\<lambda>d_rmsnorm_out.
          io_bind (call_rmsnorm_bwd rmsnorm_bwd d_rmsnorm_out inputmat rsigma rmsnorm_weight
                     (ctx_bwd_rmsnorm_sm_margin c) (ctx_zero_centered_gamma c))
            (\<lambda>(dxmat, dgamma).
          io_bind (if requires_dx c then
                     io_bind (Tensor_reshape dxmat (map int (inp_shape c)))
                       (\<lambda>dx. io_return (Some dx))
                   else io_return None) (\<lambda>dx.
            io_return (dx, if requires_dw c then Some dgamma else None))))
      | _ \<Rightarrow> io_raise ValueError)"

section \<open>The layer \<^verbatim>\<open>RMSNorm\<close>\<close>

datatype param_initializer = Constant real | Initializer "nat \<Rightarrow> real"

record ParamAttr =
  initializer :: param_initializer
  trainable :: bool

record RMSNorm =
  eps :: real
  zero_centered_gamma :: bool
  sequence_parallel :: bool
  backend :: string
  layer_dtype :: paddle_dtype
  weight_attr :: ParamAttr
  weight :: tensor
  fwd_rmsnorm_sm_margin :: int
  bwd_rmsnorm_sm_margin :: int

text \<open>
  \<^verbatim>\<open>create_parameter\<close> of the framework: a new tensor of the given shape, filled by
  the attribute's initializer; it takes part in training unless the attribute says not.
\<close>

definition create_parameter :: "nat list \<Rightarrow> ParamAttr \<Rightarrow> paddle_dtype \<Rightarrow> tensor io" where
  "create_parameter s attr dt =
     io_emit (CreateParameter s)
       (Inr \<lparr>shape = s,
             data = (case initializer attr of
                       Constant c \<Rightarrow> replicate (numel s) c
                     | Initializer f \<Rightarrow> map f [0..<numel s]),
             dtype = dt,
             stop_gradient = (\<not> trainable attr),
             marked_sequence_parallel = False\<rparr>)"

text \<open>
  Modelled from the spec: \<^verbatim>\<open>mark_as_sequence_parallel_parameter\<close> of the distributed
  module, which is not part of this source file. The spec gives it as "mark tensor as
  sequence-parallel".
\<close>

definition mark_as_sequence_parallel_parameter :: "tensor \<Rightarrow> tensor io" where
  "mark_as_sequence_parallel_parameter t =
     io_emit MarkSequenceParallel (Inr (t\<lparr>marked_sequence_parallel := True\<rparr>))"

subsection \<open>The environment and \<^verbatim>\<open>int(...)\<close> of a string\<close>

definition getenv_default :: "(string \<rightharpoonup> string) \<Rightarrow> string \<Rightarrow> string \<Rightarrow> string" where
  "getenv_default env name dflt = (case env name of None \<Rightarrow> dflt | Some v \<Rightarrow> v)"

definition os_getenv :: "(string \<rightharpoonup> string) \<Rightarrow> string \<Rightarrow> string \<Rightarrow> string io" where
  "os_getenv env name dflt = io_emit (GetEnv name) (Inr (getenv_default env name dflt))"

text \<open>
  \<^verbatim>\<open>int(s)\<close> in base ten: white space around the number is dropped, one sign may lead,
  and the digits may be separated by single underscores. Everything else is a
  \<^verbatim>\<open>ValueError\<close>. Characters are bytes here, so only the ASCII digits and white space
  count, and the interpreter's configurable cap on the number of digits is left out.
\<close>

definition is_space :: "char \<Rightarrow> bool" where
  "is_space c = (let n = (of_char c :: nat) in (9 \<le> n \<and> n \<le> 13) \<or> (28 \<le> n \<and> n \<le> 32))"

definition is_digit :: "char \<Rightarrow> bool" where
  "is_digit c = (let n = (of_char c :: nat) in 48 \<le> n \<and> n \<le> 57)"

definition digit_value :: "char \<Rightarrow> nat" where
  "digit_value c = of_char c - 48"

definition strip :: "string \<Rightarrow> string" where
  "strip s = rev (dropWhile is_space (rev (dropWhile is_space s)))"

fun parse_digits :: "nat \<Rightarrow> bool \<Rightarrow> string \<Rightarrow> nat option" where
  "parse_digits acc after_digit [] = (if after_digit then Some acc else None)"
| "parse_digits acc after_digit (c # cs) =
     (if is_digit c then parse_digits (10 * acc + digit_value c) True cs
      else if c = CHR ''_'' \<and> after_digit then parse_digits acc False cs
      else None)"

definition py_int :: "string \<Rightarrow> error + int" where
  "py_int s =
     (case strip s of
        [] \<Rightarrow> Inl ValueError
      | c # cs \<Rightarrow>
          if c = CHR ''-'' then
            (case parse_digits 0 False cs of
               None \<Rightarrow> Inl ValueError | Some n \<Rightarrow> Inr (- int n))
          else if c = CHR ''+'' then
            (case parse_digits 0 False cs of
               None \<Rightarrow> Inl ValueError | Some n \<Rightarrow> Inr (int n))
          else
            (case parse_digits 0 False (c # cs) of
               None \<Rightarrow> Inl ValueError | Some n \<Rightarrow> Inr (int n)))"

subsection \<open>Construction\<close>

text \<open>
  \<^verbatim>\<open>RMSNorm.__init__\<close>. The process environment and the framework's default element
  type are read by the constructor, so they are arguments here. \<open>hidden_size\<close> is a size:
  a natural number.
\<close>

definition RMSNorm_init ::
  "(string \<rightharpoonup> string) \<Rightarrow> paddle_dtype \<Rightarrow> nat \<Rightarrow> real \<Rightarrow> ParamAttr option \<Rightarrow> bool \<Rightarrow> bool \<Rightarrow> string
     \<Rightarrow> RMSNorm io" where
  "RMSNorm_init env default_dtype hidden_size e attr zcg seq_par bk =
     (let wattr = (case attr of
                     None \<Rightarrow> \<lparr>initializer = Constant 1, trainable = True\<rparr>
                   | Some a \<Rightarrow> a)
      in
      io_bind (create_parameter [hidden_size] wattr default_dtype) (\<lambda>w0.
      io_bind (if seq_par then mark_as_sequence_parallel_parameter w0 else io_return w0) (\<lambda>w.
      io_bind (os_getenv env ''NVTE_FWD_LAYERNORM_SM_MARGIN'' ''0'') (\<lambda>fwd_str.
      io_bind (io_lift (py_int fwd_str)) (\<lambda>fwd_margin.
      io_bind (os_getenv env ''NVTE_BWD_LAYERNORM_SM_MARGIN'' ''0'') (\<lambda>bwd_str.
      io_bind (io_lift (py_int bwd_str)) (\<lambda>bwd_margin.
        io_return
          \<lparr>eps = e,
           zero_centered_gamma = zcg,
           sequence_parallel = seq_par,
           backend = bk,
           layer_dtype = default_dtype,
           weight_attr = wattr,
           weight = w,
           fwd_rmsnorm_sm_margin = fwd_margin,
           bwd_rmsnorm_sm_margin = bwd_margin\<rparr>)))))))"

subsection \<open>The forward call\<close>

definition te_forward ::
  "fwd_kernel \<Rightarrow> (paddle_dtype \<rightharpoonup> te_dtype) \<Rightarrow> RMSNorm \<Rightarrow> tensor \<Rightarrow> (tensor \<times> ctx) io" where
  "te_forward rmsnorm_fwd TE_DType self inp =
     PyLayer_forward rmsnorm_fwd TE_DType inp (weight self) (eps self)
       (fwd_rmsnorm_sm_margin self) (bwd_rmsnorm_sm_margin self) (zero_centered_gamma self)"

definition pd_forward :: "RMSNorm \<Rightarrow> tensor \<Rightarrow> tensor io" where
  "pd_forward self inp =
     (if zero_centered_gamma self then
        io_raise (NotImplementedError
          ''Paddle backend does not support RMSNorm with zero_centered_gamma.'')
      else
        io_bind (paddle_pow inp 2) (\<lambda>sq.
        io_bind (paddle_mean sq) (\<lambda>mean_sq.
        io_bind (paddle_add_scalar mean_sq (eps self)) (\<lambda>shifted.
        io_bind (paddle_rsqrt shifted) (\<lambda>norm.
        io_bind (paddle_multiply inp norm) (\<lambda>scaled.
          paddle_multiply scaled (weight self)))))))"

text \<open>
  \<^verbatim>\<open>RMSNorm.forward\<close>. The accelerated path also leaves the filled context with the
  framework, for the backward call; the direct path leaves none.
\<close>

definition forward ::
  "fwd_kernel \<Rightarrow> (paddle_dtype \<rightharpoonup> te_dtype) \<Rightarrow> RMSNorm \<Rightarrow> tensor \<Rightarrow> (tensor \<times> ctx option) io" where
  "forward rmsnorm_fwd TE_DType self inp =
     (if backend self = ''transformer_engine'' then
        io_bind (te_forward rmsnorm_fwd TE_DType self inp) (\<lambda>(y, c). io_return (y, Some c))
      else if backend self = ''paddle'' then
        io_bind (pd_forward self inp) (\<lambda>y. io_return (y, None))
      else io_raise (AttributeError (''Backend '' @ backend self @ '' not supported.'')))"

section \<open>The normalisation formula\<close>

text \<open>
  The mean of the squares over the last axis, for row \<open>r\<close> of the elements \<open>xs\<close> of a
  tensor whose last dimension is \<open>n\<close>: the \<open>mean(x\<^sup>2)\<close> of the documented formula.
\<close>

definition mean_square :: "nat \<Rightarrow> real list \<Rightarrow> nat \<Rightarrow> real" where
  "mean_square n xs r = sum_list (map (\<lambda>x. x ^ 2) (row n xs r)) / real n"

section \<open>An instance of the external interface\<close>

text \<open>
  Modelled from the spec: the table \<^verbatim>\<open>TE_DType\<close> and the kernel pair
  \<^verbatim>\<open>rmsnorm_fwd\<close>, \<^verbatim>\<open>rmsnorm_bwd\<close>, which are not part of this source file. The spec
  gives the forward contract as "(input matrix, scale vector, epsilon, dtype tag, SM
  margin, zero-centered flag) \<rightarrow> (output matrix, reciprocal-RMS statistic)" with the
  output \<open>x / sqrt(mean(x\<^sup>2) + eps) * scale\<close>, or \<open>x / (rms(x) + eps) * (1 + scale)\<close> in the
  zero-centered mode, and the backward contract as "(output gradient, saved input
  matrix, reciprocal-RMS statistic, scale vector, SM margin, zero-centered flag) \<rightarrow>
  (input gradient, scale gradient)". The instance below computes in exact arithmetic;
  its gradients are those of \<open>x * rsigma * gamma\<close>. The theorems take the table and the
  kernels as arbitrary parameters; this instance shows that their assumptions can be
  met.
\<close>

definition example_TE_DType :: "paddle_dtype \<rightharpoonup> te_dtype" where
  "example_TE_DType =
     [uint8 \<mapsto> kByte, int32 \<mapsto> kInt32, float32 \<mapsto> kFloat32, float16 \<mapsto> kFloat16,
      bfloat16 \<mapsto> kBFloat16]"


definition example_rsigma :: "bool \<Rightarrow> real \<Rightarrow> nat \<Rightarrow> real list \<Rightarrow> nat \<Rightarrow> real" where
  "example_rsigma zcg e n xs r =
     (if zcg then 1 / (sqrt (mean_square n xs r) + e)
      else 1 / sqrt (mean_square n xs r + e))"

definition example_gamma :: "bool \<Rightarrow> real list \<Rightarrow> nat \<Rightarrow> real" where
  "example_gamma zcg ws j = (if zcg then 1 + ws ! j else ws ! j)"

definition example_rmsnorm_fwd :: fwd_kernel where
  "example_rmsnorm_fwd x w e te sm_margin zcg =
     (case shape x of
        [m, n] \<Rightarrow>
          Inr (derived x [m, n]
                 (map (\<lambda>k. data x ! k * example_rsigma zcg e n (data x) (k div n)
                              * example_gamma zcg (data w) (k mod n))
                    [0..<m * n]),
               derived x [m] (map (example_rsigma zcg e n (data x)) [0..<m]))
      | _ \<Rightarrow> Inl KernelError)"

definition example_rmsnorm_bwd :: bwd_kernel where
  "example_rmsnorm_bwd dz x rsigma w sm_margin zcg =
     (case shape x of
        [m, n] \<Rightarrow>
          Inr (derived x [m, n]
                 (map (\<lambda>k. let r = k div n; rs = data rsigma ! r
                            in rs * (data dz ! k * example_gamma zcg (data w) (k mod n))
                               - data x ! k * rs ^ 3
                                 * (sum_list
                                      (map (\<lambda>j. data dz ! (r * n + j)
                                                  * example_gamma zcg (data w) j
                                                  * data x ! (r * n + j))
                                         [0..<n]) / real n))
                    [0..<m * n]),
               derived w [n]
                 (map (\<lambda>j. sum_list
                              (map (\<lambda>r. data dz ! (r * n + j) * data x ! (r * n + j)
                                          * data rsigma ! r)
                                 [0..<m]))
                    [0..<n]))
      | _ \<Rightarrow> Inl KernelError)"

definition example_tensor :: "nat list \<Rightarrow> real list \<Rightarrow> bool \<Rightarrow> tensor" where
  "example_tensor s xs sg =
     \<lparr>shape = s, data = xs, dtype = float32, stop_gradient = sg,
      marked_sequence_parallel = False\<rparr>"

definition example_layer :: "string \<Rightarrow> bool \<Rightarrow> tensor \<Rightarrow> RMSNorm" where
  "example_layer bk zcg w =
     \<lparr>eps = 1 / 100000,
      zero_centered_gamma = zcg,
      sequence_parallel = False,
      backend = bk,
      layer_dtype = float32,
      weight_attr = \<lparr>initializer = Constant 1, trainable = True\<rparr>,
      weight = w,
      fwd_rmsnorm_sm_margin = 0,
      bwd_rmsnorm_sm_margin = 0\<rparr>"

subsection \<open>What the layer relies on\<close>

text \<open>
  Modelled from the spec: the part of the kernels' contract the layer relies on. The
  spec calls the forward kernel's first result the "output matrix" of the "input
  matrix" and the backward kernel's first result the "input gradient": on a
  two-dimensional input the kernel returns, and that result has the input's shape.
\<close>

definition fwd_contract :: "fwd_kernel \<Rightarrow> bool" where
  "fwd_contract k =
     (\<forall>x w e te m z. length (shape x) = 2 \<longrightarrow>
        (\<exists>out rs. k x w e te m z = Inr (out, rs) \<and> shape out = shape x))"

definition bwd_contract :: "bwd_kernel \<Rightarrow> bool" where
  "bwd_contract k =
     (\<forall>dz x rs w m z. length (shape x) = 2 \<and> shape dz = shape x \<longrightarrow>
        (\<exists>dx dgamma. k dz x rs w m z = Inr (dx, dgamma) \<and> shape dx = shape x))"

text \<open>
  The input as the accelerated path hands it to the kernel: all leading dimensions
  collapsed into one, the elements untouched.
\<close>

definition flattened :: "tensor \<Rightarrow> tensor" where
  "flattened t =
     t\<lparr>shape := [prod_list (butlast (shape t)), last (shape t)],
       marked_sequence_parallel := False\<rparr>"

text \<open>
  A context after the \<^verbatim>\<open>stop_gradient\<close> markers of the tensors it saved were set anew,
  the \<open>i\<close>-th to \<open>f i\<close>: what a caller can do to those objects between the forward and
  the backward call.
\<close>

definition remark_saved :: "(nat \<Rightarrow> bool) \<Rightarrow> ctx \<Rightarrow> ctx" where
  "remark_saved f c =
     c\<lparr>saved_tensor :=
         map (\<lambda>i. (saved_tensor c ! i)\<lparr>stop_gradient := f i\<rparr>)
           [0..<length (saved_tensor c)]\<rparr>"

section \<open>Reading a trace\<close>


fun fwd_margins :: "event list \<Rightarrow> int list" where
  "fwd_margins [] = []"
| "fwd_margins (RmsnormFwd s m z # evs) = m # fwd_margins evs"
| "fwd_margins (_ # evs) = fwd_margins evs"



section \<open>Laws of the effect sequencing\<close>

lemma io_bind_raise: "io_bind (tr, Inl e) f = (tr, Inl e)"
  by (simp add: io_bind_def)

lemma io_bind_value: "io_bind (tr, Inr x) f = (tr @ fst (f x), snd (f x))"
  by (simp add: io_bind_def split: prod.splits)

lemmas io_simps =
  io_bind_raise io_bind_value io_return_def io_raise_def io_lift_def io_emit_def

section \<open>Construction\<close>


lemmas init_defs =
  RMSNorm_init_def Let_def io_simps os_getenv_def create_parameter_def
  mark_as_sequence_parallel_parameter_def

lemmas py_int_eval =
  py_int_def strip_def is_space_def is_digit_def digit_value_def getenv_default_def

text \<open>
  C3. The claim: without an explicit weight attribute the scale starts as all ones when
  zero-centered gamma is off and as all zeros when it is on. The constructor installs
  \<^verbatim>\<open>Constant(1.0)\<close> whatever the flag says: built with hidden size 4, zero-centered
  gamma on and no weight attribute, the layer holds the scale \<open>[1, 1, 1, 1]\<close>, where the
  class's own documentation promises zeros.
\<close>

theorem init_zero_centered_weight_ones:
  "\<exists>tr l. RMSNorm_init Map.empty float32 4 (1 / 100000) None True False ''transformer_engine''
            = (tr, Inr l)
          \<and> zero_centered_gamma l \<and> data (weight l) = [1, 1, 1, 1]"
  by (simp add: init_defs py_int_eval numel_def eval_nat_numeral)





section \<open>The forward call\<close>

text \<open>
  C6. A layer with the backend \<^verbatim>\<open>'paddle'\<close> and zero-centered gamma on raises
  \<^verbatim>\<open>NotImplementedError\<close> on every forward call, whatever the input, and the trace of
  the call is empty: no tensor operation ran before the exception.
\<close>

theorem paddle_zero_centered_not_implemented:
  "backend self = ''paddle'' \<Longrightarrow> zero_centered_gamma self \<Longrightarrow>
   forward k tab self inp
     = ([], Inl (NotImplementedError
                   ''Paddle backend does not support RMSNorm with zero_centered_gamma.''))"
  by (simp add: forward_def pd_forward_def io_simps)

theorem paddle_zero_centered_not_implemented_witness:
  "forward example_rmsnorm_fwd example_TE_DType
     (example_layer ''paddle'' True (example_tensor [4] [0, 0, 0, 0] False))
     (example_tensor [2, 4] [1, 2, 3, 4, 5, 6, 7, 8] False)
   = ([], Inl (NotImplementedError
                 ''Paddle backend does not support RMSNorm with zero_centered_gamma.''))"
  using paddle_zero_centered_not_implemented
          [of "example_layer ''paddle'' True (example_tensor [4] [0, 0, 0, 0] False)"
              example_rmsnorm_fwd example_TE_DType
              "example_tensor [2, 4] [1, 2, 3, 4, 5, 6, 7, 8] False"]
  by (simp add: example_layer_def)

section \<open>What the calls leave in the trace\<close>

lemmas fwd_defs =
  PyLayer_forward_def io_simps io_bind_def Tensor_reshape_def call_rmsnorm_fwd_def

lemmas bwd_defs =
  PyLayer_backward_def io_simps io_bind_def Tensor_reshape_def call_rmsnorm_bwd_def



lemma PyLayer_forward_success:
  "PyLayer_forward k tab inp w e fm bm zcg = (tr, Inr (y, c)) \<Longrightarrow>
   fwd_margins tr = [fm] \<and> ctx_bwd_rmsnorm_sm_margin c = bm \<and> ctx_zero_centered_gamma c = zcg
   \<and> requires_dx c = (\<not> stop_gradient inp) \<and> requires_dw c = (\<not> stop_gradient w)
   \<and> inp_shape c = shape inp"
  by (auto simp: fwd_defs split: sum.splits prod.splits option.splits list.splits if_splits)










section \<open>The accelerated path\<close>

subsection \<open>Reshaping to a shape without empty dimensions\<close>

lemma copy_dims_positive:
  "0 \<notin> set t \<Longrightarrow> copy_dims s i (map int t) = Some (map int t)"
  by (induction t arbitrary: i) auto

lemma filter_known_positive: "filter (\<lambda>d. d \<noteq> - 1) (map int t) = map int t"
  by (induction t) auto

lemma reshape_to_shape:
  assumes "0 \<notin> set t" and "numel s = numel t"
  shows "reshape_shape s (map int t) = Some t"
  using assms
  by (simp add: reshape_shape_def copy_dims_positive filter_known_positive Let_def numel_def
      comp_def)

lemma reshape_flatten:
  assumes "0 < n"
  shows "reshape_shape (ds @ [n]) [- 1, int n] = Some [prod_list ds, n]"
  using assms by (simp add: reshape_shape_def Let_def numel_def)

lemma prod_list_pos: "0 \<notin> set ds \<Longrightarrow> 0 < prod_list (ds :: nat list)"
  by (induction ds) auto

subsection \<open>When the forward and the backward call return\<close>

lemma flattened_snoc:
  "shape inp = ds @ [n] \<Longrightarrow> flattened inp = inp\<lparr>shape := [prod_list ds, n], marked_sequence_parallel := False\<rparr>"
  by (simp add: flattened_def)

lemma PyLayer_forward_returns:
  assumes w: "shape w = [n]" and s: "shape inp = ds @ [n]" and n: "0 < n" and ds: "0 \<notin> set ds"
    and te: "tab (dtype inp) = Some te" and k: "fwd_contract k"
  shows "\<exists>out rs. k (flattened inp) w e te fm zcg = Inr (out, rs) \<and> shape out = [prod_list ds, n] \<and>
     PyLayer_forward k tab inp w e fm bm zcg =
       ([TensorOp ''reshape'', RmsnormFwd [prod_list ds, n] fm zcg, TensorOp ''reshape''],
        Inr (out\<lparr>shape := shape inp, marked_sequence_parallel := False\<rparr>,
             \<lparr>saved_tensor = [flattened inp, w, rs], inp_shape = shape inp,
              ctx_bwd_rmsnorm_sm_margin = bm, ctx_zero_centered_gamma = zcg,
              requires_dx = (\<not> stop_gradient inp), requires_dw = (\<not> stop_gradient w)\<rparr>))"
proof -
  have fl: "flattened inp = inp\<lparr>shape := [prod_list ds, n], marked_sequence_parallel := False\<rparr>"
    using s by (rule flattened_snoc)
  then have "length (shape (flattened inp)) = 2" by simp
  with k obtain out rs where
    call: "k (flattened inp) w e te fm zcg = Inr (out, rs)" and so: "shape out = shape (flattened inp)"
    unfolding fwd_contract_def by blast
  from so fl have so': "shape out = [prod_list ds, n]" by simp
  have r1: "reshape_shape (shape inp) [- 1, int n] = Some [prod_list ds, n]"
    using s n by (simp add: reshape_flatten)
  have "0 \<notin> set (shape inp)" using s n ds by simp
  moreover have "numel (shape out) = numel (shape inp)" using so' s by (simp add: numel_def)
  ultimately have r2: "reshape_shape (shape out) (map int (shape inp)) = Some (shape inp)"
    by (rule reshape_to_shape)
  have "PyLayer_forward k tab inp w e fm bm zcg =
       ([TensorOp ''reshape'', RmsnormFwd [prod_list ds, n] fm zcg, TensorOp ''reshape''],
        Inr (out\<lparr>shape := shape inp, marked_sequence_parallel := False\<rparr>,
             \<lparr>saved_tensor = [flattened inp, w, rs], inp_shape = shape inp,
              ctx_bwd_rmsnorm_sm_margin = bm, ctx_zero_centered_gamma = zcg,
              requires_dx = (\<not> stop_gradient inp), requires_dw = (\<not> stop_gradient w)\<rparr>))"
    using w s te r1 r2 call fl
    by (simp add: PyLayer_forward_def io_simps Tensor_reshape_def call_rmsnorm_fwd_def
        shape_first_def shape_last_def dict_lookup_def)
  with call so' show ?thesis by blast
qed

lemma PyLayer_backward_returns:
  assumes sv: "saved_tensor c = [x, w, rs]" and x: "shape x = [m, n]" and m: "0 < m" and n: "0 < n"
    and g: "numel (shape g) = m * n" and kb: "bwd_contract kb"
    and i: "requires_dx c \<longrightarrow> 0 \<notin> set (inp_shape c) \<and> numel (inp_shape c) = m * n"
  shows "\<exists>dxmat dgamma.
     kb (g\<lparr>shape := [m, n], marked_sequence_parallel := False\<rparr>) x rs w
        (ctx_bwd_rmsnorm_sm_margin c) (ctx_zero_centered_gamma c) = Inr (dxmat, dgamma) \<and>
     PyLayer_backward kb c g =
       ([TensorOp ''reshape'', RmsnormBwd [m, n] (ctx_bwd_rmsnorm_sm_margin c) (ctx_zero_centered_gamma c)]
          @ (if requires_dx c then [TensorOp ''reshape''] else []),
        Inr (if requires_dx c then Some (dxmat\<lparr>shape := inp_shape c, marked_sequence_parallel := False\<rparr>) else None,
             if requires_dw c then Some dgamma else None))"
proof -
  let ?dz = "g\<lparr>shape := [m, n], marked_sequence_parallel := False\<rparr>"
  have "0 \<notin> set [m, n]" using m n by simp
  moreover have "numel (shape g) = numel [m, n]" using g by (simp add: numel_def)
  ultimately have "reshape_shape (shape g) (map int [m, n]) = Some [m, n]"
    by (rule reshape_to_shape)
  then have r1: "reshape_shape (shape g) [int m, int n] = Some [m, n]" by simp
  have "length (shape x) = 2 \<and> shape ?dz = shape x" using x by simp
  with kb obtain dxmat dgamma where
    call: "kb ?dz x rs w (ctx_bwd_rmsnorm_sm_margin c) (ctx_zero_centered_gamma c) = Inr (dxmat, dgamma)"
    and sd: "shape dxmat = shape x"
    unfolding bwd_contract_def by blast
  have r2: "reshape_shape (shape dxmat) (map int (inp_shape c)) = Some (inp_shape c)" if "requires_dx c"
  proof -
    from that i have "0 \<notin> set (inp_shape c)" and "numel (shape dxmat) = numel (inp_shape c)"
      using sd x by (simp_all add: numel_def)
    then show ?thesis by (rule reshape_to_shape)
  qed
  have "PyLayer_backward kb c g =
       ([TensorOp ''reshape'', RmsnormBwd [m, n] (ctx_bwd_rmsnorm_sm_margin c) (ctx_zero_centered_gamma c)]
          @ (if requires_dx c then [TensorOp ''reshape''] else []),
        Inr (if requires_dx c then Some (dxmat\<lparr>shape := inp_shape c, marked_sequence_parallel := False\<rparr>) else None,
             if requires_dw c then Some dgamma else None))"
    using sv x r1 r2 call
    by (simp add: PyLayer_backward_def io_simps Tensor_reshape_def call_rmsnorm_bwd_def)
  with call show ?thesis by blast
qed


subsection \<open>Which gradients come back\<close>

lemma example_fwd_contract: "fwd_contract example_rmsnorm_fwd"
  by (auto simp: fwd_contract_def example_rmsnorm_fwd_def derived_def length_Suc_conv
      numeral_2_eq_2 split: list.splits)

lemma example_bwd_contract: "bwd_contract example_rmsnorm_bwd"
  by (auto simp: bwd_contract_def example_rmsnorm_bwd_def derived_def length_Suc_conv
      numeral_2_eq_2 split: list.splits)

lemma PyLayer_backward_pattern:
  "PyLayer_backward kb c g = (tr, Inr (dx, dw)) \<Longrightarrow>
   (dx = None) = (\<not> requires_dx c) \<and> (dw = None) = (\<not> requires_dw c)"
  by (auto simp: bwd_defs split: sum.splits prod.splits option.splits list.splits if_splits)

lemma remark_saved_fields:
  "requires_dx (remark_saved f c) = requires_dx c"
  "requires_dw (remark_saved f c) = requires_dw c"
  "inp_shape (remark_saved f c) = inp_shape c"
  "ctx_bwd_rmsnorm_sm_margin (remark_saved f c) = ctx_bwd_rmsnorm_sm_margin c"
  "ctx_zero_centered_gamma (remark_saved f c) = ctx_zero_centered_gamma c"
  by (simp_all add: remark_saved_def)

lemma remark_saved_three:
  "saved_tensor c = [x, w, rs] \<Longrightarrow>
   saved_tensor (remark_saved f c) =
     [x\<lparr>stop_gradient := f 0\<rparr>, w\<lparr>stop_gradient := f 1\<rparr>, rs\<lparr>stop_gradient := f 2\<rparr>]"
  by (simp add: remark_saved_def upt_rec numeral_3_eq_3 numeral_2_eq_2)

text \<open>
  C4. Whenever the forward call of the accelerated path returns and the backward call on
  its context returns, the first returned gradient is \<open>None\<close> exactly when the input
  carried \<^verbatim>\<open>stop_gradient\<close> at the forward call, and the second is \<open>None\<close> exactly when
  the scale parameter did: each decision looks at its own tensor only, so all four
  combinations of the two markers come out accordingly. Both calls do return when the
  input ends in the feature size and has no empty dimension, its element type is in the
  table, the gradient has the input's shape and the kernels keep their contract.
\<close>

theorem backward_none_per_flag:
  "(\<forall>tr y c tr' dx dw.
      PyLayer_forward k tab inp w e fm bm zcg = (tr, Inr (y, c))
      \<and> PyLayer_backward kb c g = (tr', Inr (dx, dw))
      \<longrightarrow> (dx = None) = stop_gradient inp \<and> (dw = None) = stop_gradient w)
   \<and> (shape w = [n] \<and> shape inp = ds @ [n] \<and> 0 < n \<and> 0 \<notin> set ds \<and> tab (dtype inp) = Some te
      \<and> fwd_contract k \<and> bwd_contract kb \<and> shape g = shape inp
      \<longrightarrow> (\<exists>tr y c tr' dx dw.
             PyLayer_forward k tab inp w e fm bm zcg = (tr, Inr (y, c))
             \<and> PyLayer_backward kb c g = (tr', Inr (dx, dw))))"
proof (intro conjI allI impI)
  fix tr y c tr' dx dw
  assume a: "PyLayer_forward k tab inp w e fm bm zcg = (tr, Inr (y, c))
      \<and> PyLayer_backward kb c g = (tr', Inr (dx, dw))"
  from a PyLayer_forward_success have "requires_dx c = (\<not> stop_gradient inp)" "requires_dw c = (\<not> stop_gradient w)"
    by blast+
  moreover from a PyLayer_backward_pattern have "(dx = None) = (\<not> requires_dx c) \<and> (dw = None) = (\<not> requires_dw c)"
    by blast
  ultimately show "(dx = None) = stop_gradient inp" and "(dw = None) = stop_gradient w" by simp_all
next
  assume h: "shape w = [n] \<and> shape inp = ds @ [n] \<and> 0 < n \<and> 0 \<notin> set ds \<and> tab (dtype inp) = Some te
      \<and> fwd_contract k \<and> bwd_contract kb \<and> shape g = shape inp"
  then obtain out rs where
    f: "PyLayer_forward k tab inp w e fm bm zcg =
       ([TensorOp ''reshape'', RmsnormFwd [prod_list ds, n] fm zcg, TensorOp ''reshape''],
        Inr (out\<lparr>shape := shape inp, marked_sequence_parallel := False\<rparr>,
             \<lparr>saved_tensor = [flattened inp, w, rs], inp_shape = shape inp,
              ctx_bwd_rmsnorm_sm_margin = bm, ctx_zero_centered_gamma = zcg,
              requires_dx = (\<not> stop_gradient inp), requires_dw = (\<not> stop_gradient w)\<rparr>))"
    using PyLayer_forward_returns [of w n inp ds tab te k e fm zcg bm] by blast
  let ?c = "\<lparr>saved_tensor = [flattened inp, w, rs], inp_shape = shape inp,
              ctx_bwd_rmsnorm_sm_margin = bm, ctx_zero_centered_gamma = zcg,
              requires_dx = (\<not> stop_gradient inp), requires_dw = (\<not> stop_gradient w)\<rparr>"
  have "\<exists>dxmat dgamma.
     kb (g\<lparr>shape := [prod_list ds, n], marked_sequence_parallel := False\<rparr>) (flattened inp) rs w
        (ctx_bwd_rmsnorm_sm_margin ?c) (ctx_zero_centered_gamma ?c) = Inr (dxmat, dgamma) \<and>
     PyLayer_backward kb ?c g =
       ([TensorOp ''reshape'', RmsnormBwd [prod_list ds, n] (ctx_bwd_rmsnorm_sm_margin ?c) (ctx_zero_centered_gamma ?c)]
          @ (if requires_dx ?c then [TensorOp ''reshape''] else []),
        Inr (if requires_dx ?c then Some (dxmat\<lparr>shape := inp_shape ?c, marked_sequence_parallel := False\<rparr>) else None,
             if requires_dw ?c then Some dgamma else None))"
    using h by (intro PyLayer_backward_returns) (auto simp: flattened_snoc prod_list_pos numel_def)
  with f show "\<exists>tr y c tr' dx dw.
             PyLayer_forward k tab inp w e fm bm zcg = (tr, Inr (y, c))
             \<and> PyLayer_backward kb c g = (tr', Inr (dx, dw))"
    by blast
qed


theorem backward_none_per_flag_witness:
  "\<forall>sx sw. \<exists>tr y c tr' dx dw.
     PyLayer_forward example_rmsnorm_fwd example_TE_DType
       (example_tensor [2, 1, 4] [1, 2, 3, 4, 5, 6, 7, 8] sx)
       (example_tensor [4] [1, 1, 1, 1] sw) (1 / 100000) 0 0 False = (tr, Inr (y, c))
     \<and> PyLayer_backward example_rmsnorm_bwd c
         (example_tensor [2, 1, 4] [1, 1, 1, 1, 1, 1, 1, 1] True) = (tr', Inr (dx, dw))
     \<and> (dx = None) = sx \<and> (dw = None) = sw"
proof (intro allI)
  fix sx sw
  let ?inp = "example_tensor [2, 1, 4] [1, 2, 3, 4, 5, 6, 7, 8] sx"
  let ?w = "example_tensor [4] [1, 1, 1, 1] sw"
  let ?g = "example_tensor [2, 1, 4] [1, 1, 1, 1, 1, 1, 1, 1] True"
  note t = backward_none_per_flag [where k = example_rmsnorm_fwd and tab = example_TE_DType and inp = ?inp
      and w = ?w and e = "1 / 100000" and fm = 0 and bm = 0 and zcg = False
      and kb = example_rmsnorm_bwd and g = ?g and n = 4 and ds = "[2, 1]" and te = kFloat32]
  have "\<exists>tr y c tr' dx dw.
     PyLayer_forward example_rmsnorm_fwd example_TE_DType ?inp ?w (1 / 100000) 0 0 False = (tr, Inr (y, c))
     \<and> PyLayer_backward example_rmsnorm_bwd c ?g = (tr', Inr (dx, dw))"
    using t example_fwd_contract example_bwd_contract
    by (simp add: example_tensor_def example_TE_DType_def)
  then obtain tr y c tr' dx dw where
    r: "PyLayer_forward example_rmsnorm_fwd example_TE_DType ?inp ?w (1 / 100000) 0 0 False = (tr, Inr (y, c))
     \<and> PyLayer_backward example_rmsnorm_bwd c ?g = (tr', Inr (dx, dw))"
    by blast
  with t have "(dx = None) = stop_gradient ?inp \<and> (dw = None) = stop_gradient ?w"
    by blast
  then have "(dx = None) = sx \<and> (dw = None) = sw"
    by (simp add: example_tensor_def)
  with r show "\<exists>tr y c tr' dx dw.
     PyLayer_forward example_rmsnorm_fwd example_TE_DType ?inp ?w (1 / 100000) 0 0 False = (tr, Inr (y, c))
     \<and> PyLayer_backward example_rmsnorm_bwd c ?g = (tr', Inr (dx, dw))
     \<and> (dx = None) = sx \<and> (dw = None) = sw"
    by blast
qed

text \<open>
  C9. The markers are captured into the context at the forward call. However the
  \<^verbatim>\<open>stop_gradient\<close> markers of the saved tensors are set between the forward and the
  backward call (\<open>remark_saved f\<close>, for any \<open>f\<close>), a backward call that returns gives
  \<open>None\<close> for the input gradient exactly when the input carried the marker at the
  forward call, and likewise for the scale parameter. Under the shape assumptions the
  backward call returns for every such change.
\<close>

theorem backward_flags_fixed_at_forward:
  "(\<forall>tr y c f tr' dx dw.
      PyLayer_forward k tab inp w e fm bm zcg = (tr, Inr (y, c))
      \<and> PyLayer_backward kb (remark_saved f c) g = (tr', Inr (dx, dw))
      \<longrightarrow> (dx = None) = stop_gradient inp \<and> (dw = None) = stop_gradient w)
   \<and> (shape w = [n] \<and> shape inp = ds @ [n] \<and> 0 < n \<and> 0 \<notin> set ds \<and> tab (dtype inp) = Some te
      \<and> fwd_contract k \<and> bwd_contract kb \<and> shape g = shape inp
      \<longrightarrow> (\<exists>tr y c. PyLayer_forward k tab inp w e fm bm zcg = (tr, Inr (y, c))
             \<and> (\<forall>f. \<exists>tr' dx dw. PyLayer_backward kb (remark_saved f c) g = (tr', Inr (dx, dw)))))"
proof (intro conjI allI impI)
  fix tr y c f tr' dx dw
  assume a: "PyLayer_forward k tab inp w e fm bm zcg = (tr, Inr (y, c))
      \<and> PyLayer_backward kb (remark_saved f c) g = (tr', Inr (dx, dw))"
  from a PyLayer_forward_success
  have "requires_dx c = (\<not> stop_gradient inp)" "requires_dw c = (\<not> stop_gradient w)"
    by blast+
  moreover from a PyLayer_backward_pattern
  have "(dx = None) = (\<not> requires_dx (remark_saved f c))
      \<and> (dw = None) = (\<not> requires_dw (remark_saved f c))"
    by blast
  ultimately show "(dx = None) = stop_gradient inp" and "(dw = None) = stop_gradient w"
    by (simp_all add: remark_saved_fields)
next
  assume h: "shape w = [n] \<and> shape inp = ds @ [n] \<and> 0 < n \<and> 0 \<notin> set ds \<and> tab (dtype inp) = Some te
      \<and> fwd_contract k \<and> bwd_contract kb \<and> shape g = shape inp"
  then obtain out rs where
    f: "PyLayer_forward k tab inp w e fm bm zcg =
       ([TensorOp ''reshape'', RmsnormFwd [prod_list ds, n] fm zcg, TensorOp ''reshape''],
        Inr (out\<lparr>shape := shape inp, marked_sequence_parallel := False\<rparr>,
             \<lparr>saved_tensor = [flattened inp, w, rs], inp_shape = shape inp,
              ctx_bwd_rmsnorm_sm_margin = bm, ctx_zero_centered_gamma = zcg,
              requires_dx = (\<not> stop_gradient inp), requires_dw = (\<not> stop_gradient w)\<rparr>))"
    using PyLayer_forward_returns [of w n inp ds tab te k e fm zcg bm] by blast
  let ?c = "\<lparr>saved_tensor = [flattened inp, w, rs], inp_shape = shape inp,
              ctx_bwd_rmsnorm_sm_margin = bm, ctx_zero_centered_gamma = zcg,
              requires_dx = (\<not> stop_gradient inp), requires_dw = (\<not> stop_gradient w)\<rparr>"
  have "\<exists>tr' dx dw. PyLayer_backward kb (remark_saved f ?c) g = (tr', Inr (dx, dw))" for f
  proof -
    have sv: "saved_tensor (remark_saved f ?c) =
        [(flattened inp)\<lparr>stop_gradient := f 0\<rparr>, w\<lparr>stop_gradient := f 1\<rparr>, rs\<lparr>stop_gradient := f 2\<rparr>]"
      by (rule remark_saved_three) simp
    have "\<exists>dxmat dgamma.
       kb (g\<lparr>shape := [prod_list ds, n], marked_sequence_parallel := False\<rparr>)
          ((flattened inp)\<lparr>stop_gradient := f 0\<rparr>) (rs\<lparr>stop_gradient := f 2\<rparr>) (w\<lparr>stop_gradient := f 1\<rparr>)
          (ctx_bwd_rmsnorm_sm_margin (remark_saved f ?c)) (ctx_zero_centered_gamma (remark_saved f ?c))
         = Inr (dxmat, dgamma) \<and>
       PyLayer_backward kb (remark_saved f ?c) g =
         ([TensorOp ''reshape'', RmsnormBwd [prod_list ds, n] (ctx_bwd_rmsnorm_sm_margin (remark_saved f ?c))
             (ctx_zero_centered_gamma (remark_saved f ?c))]
            @ (if requires_dx (remark_saved f ?c) then [TensorOp ''reshape''] else []),
          Inr (if requires_dx (remark_saved f ?c)
               then Some (dxmat\<lparr>shape := inp_shape (remark_saved f ?c), marked_sequence_parallel := False\<rparr>)
               else None,
               if requires_dw (remark_saved f ?c) then Some dgamma else None))"
      using h sv
      by (intro PyLayer_backward_returns)
         (auto simp: flattened_snoc prod_list_pos numel_def remark_saved_fields)
    then show ?thesis by blast
  qed
  with f show "\<exists>tr y c. PyLayer_forward k tab inp w e fm bm zcg = (tr, Inr (y, c))
             \<and> (\<forall>f. \<exists>tr' dx dw. PyLayer_backward kb (remark_saved f c) g = (tr', Inr (dx, dw)))"
    by blast
qed

theorem backward_flags_fixed_at_forward_witness:
  "\<exists>tr y c. PyLayer_forward example_rmsnorm_fwd example_TE_DType
       (example_tensor [2, 1, 4] [1, 2, 3, 4, 5, 6, 7, 8] False)
       (example_tensor [4] [1, 1, 1, 1] True) (1 / 100000) 0 0 False = (tr, Inr (y, c))
     \<and> (\<forall>f. \<exists>tr' dx dw. PyLayer_backward example_rmsnorm_bwd (remark_saved f c)
         (example_tensor [2, 1, 4] [1, 1, 1, 1, 1, 1, 1, 1] True) = (tr', Inr (dx, dw))
         \<and> dx \<noteq> None \<and> dw = None)"
proof -
  let ?inp = "example_tensor [2, 1, 4] [1, 2, 3, 4, 5, 6, 7, 8] False"
  let ?w = "example_tensor [4] [1, 1, 1, 1] True"
  let ?g = "example_tensor [2, 1, 4] [1, 1, 1, 1, 1, 1, 1, 1] True"
  note t = backward_flags_fixed_at_forward [where k = example_rmsnorm_fwd and tab = example_TE_DType and inp = ?inp
      and w = ?w and e = "1 / 100000" and fm = 0 and bm = 0 and zcg = False
      and kb = example_rmsnorm_bwd and g = ?g and n = 4 and ds = "[2, 1]" and te = kFloat32]
  have "\<exists>tr y c. PyLayer_forward example_rmsnorm_fwd example_TE_DType ?inp ?w (1 / 100000) 0 0 False = (tr, Inr (y, c))
             \<and> (\<forall>f. \<exists>tr' dx dw. PyLayer_backward example_rmsnorm_bwd (remark_saved f c) ?g = (tr', Inr (dx, dw)))"
    using t example_fwd_contract example_bwd_contract
    by (simp add: example_tensor_def example_TE_DType_def)
  then obtain tr y c where
    f: "PyLayer_forward example_rmsnorm_fwd example_TE_DType ?inp ?w (1 / 100000) 0 0 False = (tr, Inr (y, c))"
    and b: "\<And>f. \<exists>tr' dx dw. PyLayer_backward example_rmsnorm_bwd (remark_saved f c) ?g = (tr', Inr (dx, dw))"
    by blast
  have "\<exists>tr' dx dw. PyLayer_backward example_rmsnorm_bwd (remark_saved f c) ?g = (tr', Inr (dx, dw))
         \<and> dx \<noteq> None \<and> dw = None" for f
  proof -
    from b [of f] obtain tr' dx dw where
      r: "PyLayer_backward example_rmsnorm_bwd (remark_saved f c) ?g = (tr', Inr (dx, dw))"
      by blast
    with t f have "(dx = None) = stop_gradient ?inp \<and> (dw = None) = stop_gradient ?w"
      by blast
    then have "dx \<noteq> None \<and> dw = None"
      by (simp add: example_tensor_def)
    with r show ?thesis by blast
  qed
  with f show ?thesis by blast
qed

section \<open>The direct-arithmetic path\<close>

subsection \<open>Broadcasting against the row statistic and against the scale\<close>









subsection \<open>The closed form of the result\<close>








lemmas pd_eval = forward_def pd_forward_def io_simps paddle_pow_def paddle_mean_def paddle_add_scalar_def
        paddle_rsqrt_def paddle_multiply_def derived_def broadcast_shape_def example_layer_def example_tensor_def

text \<open>
  C5. The claim: an input whose last dimension differs from the feature size fails at
  once with a shape-mismatch error under either backend. The accelerated path does
  (third statement: the assertion fails before anything ran). The direct-arithmetic
  path has no such check. With feature size 4 an input of shape \<open>[2, 1]\<close> is accepted
  and broadcast to a result of shape \<open>[2, 4]\<close> (first statement); an input of shape
  \<open>[2, 3]\<close> fails only at the last multiplication, as a broadcasting error, after five
  tensor operations ran (second statement).
\<close>

theorem paddle_forward_accepts_mismatched_last_dim:
  "(\<exists>tr y. forward example_rmsnorm_fwd example_TE_DType
       (example_layer ''paddle'' False (example_tensor [4] [1, 1, 1, 1] False))
       (example_tensor [2, 1] [3, 5] False) = (tr, Inr (y, None)) \<and> shape y = [2, 4])
   \<and> forward example_rmsnorm_fwd example_TE_DType
       (example_layer ''paddle'' False (example_tensor [4] [1, 1, 1, 1] False))
       (example_tensor [2, 3] [1, 2, 3, 4, 5, 6] False)
     = ([TensorOp ''pow'', TensorOp ''mean'', TensorOp ''add'', TensorOp ''rsqrt'',
         TensorOp ''multiply'', TensorOp ''multiply''], Inl InvalidArgumentError)
   \<and> forward example_rmsnorm_fwd example_TE_DType
       (example_layer ''transformer_engine'' False (example_tensor [4] [1, 1, 1, 1] False))
       (example_tensor [2, 1] [3, 5] False)
     = ([], Inl (AssertionError ''RMSNorm not possible''))"
  by (simp add: pd_eval te_forward_def PyLayer_forward_def shape_first_def shape_last_def)



end
